theory Spec2Isabelle
  imports Complex_Main "HOL-Library.Signed_Division"
begin

section \<open>The x264 bridge (pkg/codec/x264/bridge.h)\<close>

text \<open>
  The bridge is a C header of four functions around the x264 library: \<open>enc_new\<close>,
  \<open>apply_target_bitrate\<close>, \<open>enc_encode\<close> and \<open>enc_close\<close>. The library itself is
  not part of the repository: it enters the model as a record of functions
  (\<open>x264_api\<close>) over an opaque engine state, so every theorem below holds for whatever
  the library answers.

  C \<open>int\<close> values are modelled as \<open>int\<close>. The only arithmetic of the bridge is one
  division by 1000, one addition of 5000 to its quotient and comparisons, none of which can
  leave the range of a 32-bit \<open>int\<close> (lemma \<open>no_overflow\<close> below); the division
  truncates towards zero as in C (\<open>sdiv\<close>).
\<close>

subsection \<open>Error codes\<close>

definition ERR_DEFAULT_PRESET :: int where "ERR_DEFAULT_PRESET = -1"
definition ERR_APPLY_PROFILE :: int where "ERR_APPLY_PROFILE = -2"
definition ERR_ALLOC_PICTURE :: int where "ERR_ALLOC_PICTURE = -3"
definition ERR_OPEN_ENGINE :: int where "ERR_OPEN_ENGINE = -4"
definition ERR_ENCODE :: int where "ERR_ENCODE = -5"

subsection \<open>Constants of x264.h\<close>

text \<open>
  The three macros of the library's header that the bridge names, with the values the
  header gives them.
\<close>

definition X264_RC_ABR :: int where "X264_RC_ABR = 2"
definition X264_TYPE_AUTO :: int where "X264_TYPE_AUTO = 0"
definition X264_TYPE_IDR :: int where "X264_TYPE_IDR = 1"

subsection \<open>Data\<close>

type_synonym addr = nat

text \<open>
  A value of C type \<open>float\<close>, written as the decimal constant it was converted from:
  \<open>Float_lit (1/10)\<close> is what the assignment \<open>= 0.1\<close> stores. The rounding of the
  constant to single precision is not modelled.
\<close>

datatype c_float = Float_lit rat

text \<open>
  The anonymous struct \<open>rc\<close> inside \<open>x264_param_t\<close>. \<open>rc_rest\<close> stands for the
  fields of that struct the bridge never names, \<open>param_rest\<close> below for those of
  \<open>x264_param_t\<close>.
\<close>

record x264_rc_t =
  i_rc_method :: int
  i_bitrate :: int
  f_rate_tolerance :: c_float
  i_vbv_max_bitrate :: int
  i_vbv_buffer_size :: int
  f_vbv_buffer_init :: c_float
  rc_rest :: "int list"

record x264_param_t =
  i_csp :: int
  i_width :: int
  i_height :: int
  i_fps_num :: int
  i_fps_den :: int
  i_keyint_max :: int
  rc :: x264_rc_t
  b_repeat_headers :: int
  b_annexb :: int
  param_rest :: "int list"

text \<open>
  \<open>x264_image_t\<close>: the array \<open>plane[4]\<close> is four fields, \<open>img_rest\<close> is the
  geometry (colour space, plane count, strides).
\<close>

record x264_image_t =
  plane0 :: addr
  plane1 :: addr
  plane2 :: addr
  plane3 :: addr
  img_rest :: "int list"

record x264_picture_t =
  i_type :: int
  img :: x264_image_t
  pic_rest :: "int list"

record x264_nal_t =
  i_payload :: int
  p_payload :: addr

text \<open>\<open>data = None\<close> is the null pointer.\<close>

record Slice =
  data :: "addr option"
  data_len :: int

record Encoder =
  h :: addr
  pic_in :: x264_picture_t
  param :: x264_param_t
  force_key_frame :: int

subsection \<open>The world outside the session\<close>

text \<open>
  What a call can change besides the \<open>Encoder\<close> it is given:
  \<^item> \<open>heap\<close>, a ledger of allocations. An address is an index into the list; the entry
    is \<open>Some\<close> while the block is live and \<open>None\<close> once it is freed. Blocks carry
    only their kind: the contents of the session struct travel as an \<open>Encoder\<close> value.
  \<^item> \<open>engine\<close>, the library's internal state, opaque to the bridge.
  \<^item> \<open>trace\<close>, the library entry points invoked so far, oldest first, each with the
    arguments the bridge handed over.
\<close>

datatype block = Encoder_block | String_block | Picture_block | Engine_block

datatype call =
    Param_default_preset string string
  | Param_apply_profile x264_param_t string
  | Picture_alloc int int int
  | Picture_clean
  | Encoder_open x264_param_t
  | Encoder_reconfig addr x264_param_t
  | Encoder_encode addr x264_picture_t
  | Encoder_close addr

record 'x world =
  heap :: "block option list"
  engine :: 'x
  trace :: "call list"

text \<open>
  \<open>malloc\<close> is taken to succeed, as the bridge takes it (its result is never tested).
  \<open>free\<close> of the address of a live block releases it.
\<close>

definition malloc :: "block \<Rightarrow> 'x world \<Rightarrow> addr \<times> 'x world" where
  "malloc b w = (length (heap w), w\<lparr>heap := heap w @ [Some b]\<rparr>)"

definition free :: "addr \<Rightarrow> 'x world \<Rightarrow> 'x world" where
  "free p w = w\<lparr>heap := (heap w)[p := None]\<rparr>"

definition live :: "'x world \<Rightarrow> addr set" where
  "live w = set (filter (\<lambda>p. heap w ! p \<noteq> None) [0..<length (heap w)])"

definition logged :: "call \<Rightarrow> 'x world \<Rightarrow> 'x world" where
  "logged c w = w\<lparr>trace := trace w @ [c]\<rparr>"

subsection \<open>The library\<close>

text \<open>
  One field for each library function whose answer the bridge reads. A parameter passed
  by pointer and written by the library comes back in the result
  (\<open>x264_param_default_preset\<close>, \<open>x264_param_apply_profile\<close>, \<open>x264_picture_alloc\<close>);
  \<open>x264_encoder_open\<close>, \<open>x264_encoder_reconfig\<close> and \<open>x264_encoder_encode\<close> read
  the structure they are pointed at and leave it alone. \<open>x264_param_default_preset\<close> and
  \<open>x264_picture_alloc\<close> fill the whole structure, so their result does not depend on
  what the memory held before. \<open>x264_encoder_open\<close> answers whether it returns a handle;
  \<open>x264_encoder_encode\<close> answers the frame size and the array of NAL units it points
  \<open>nal\<close> at.
\<close>

record 'x x264_api =
  x264_param_default_preset :: "string \<Rightarrow> string \<Rightarrow> int \<times> x264_param_t"
  x264_param_apply_profile :: "x264_param_t \<Rightarrow> string \<Rightarrow> int \<times> x264_param_t"
  x264_picture_alloc :: "int \<Rightarrow> int \<Rightarrow> int \<Rightarrow> int \<times> x264_picture_t"
  x264_encoder_open :: "x264_param_t \<Rightarrow> 'x \<Rightarrow> bool \<times> 'x"
  x264_encoder_reconfig :: "addr \<Rightarrow> x264_param_t \<Rightarrow> 'x \<Rightarrow> int \<times> 'x"
  x264_encoder_encode :: "addr \<Rightarrow> x264_picture_t \<Rightarrow> 'x \<Rightarrow> (int \<times> x264_nal_t list) \<times> 'x"
  x264_encoder_close :: "addr \<Rightarrow> 'x \<Rightarrow> 'x"

text \<open>
  Each call of the library, as the world sees it: the call is logged, the engine state
  moves, and the allocations the library makes for the caller enter the ledger.
  \<open>x264_picture_alloc\<close> allocates the plane storage when it succeeds and hangs it on
  \<open>plane[0]\<close>; \<open>x264_picture_clean\<close> releases that storage. \<open>x264_encoder_open\<close>
  allocates the handle it returns, \<open>x264_encoder_close\<close> releases it.
\<close>

definition param_default_preset ::
  "'x x264_api \<Rightarrow> string \<Rightarrow> string \<Rightarrow> 'x world \<Rightarrow> int \<times> x264_param_t \<times> 'x world" where
  "param_default_preset api preset tune w =
     (let (r, p) = x264_param_default_preset api preset tune
      in (r, p, logged (Param_default_preset preset tune) w))"

definition param_apply_profile ::
  "'x x264_api \<Rightarrow> x264_param_t \<Rightarrow> string \<Rightarrow> 'x world \<Rightarrow> int \<times> x264_param_t \<times> 'x world" where
  "param_apply_profile api p profile w =
     (let (r, p') = x264_param_apply_profile api p profile
      in (r, p', logged (Param_apply_profile p profile) w))"

definition picture_alloc ::
  "'x x264_api \<Rightarrow> int \<Rightarrow> int \<Rightarrow> int \<Rightarrow> 'x world \<Rightarrow> int \<times> x264_picture_t \<times> 'x world" where
  "picture_alloc api csp width height w =
     (let (r, pic) = x264_picture_alloc api csp width height;
          w1 = logged (Picture_alloc csp width height) w
      in if r < 0 then (r, pic, w1)
         else (let (a, w2) = malloc Picture_block w1
               in (r, pic\<lparr>img := (img pic)\<lparr>plane0 := a\<rparr>\<rparr>, w2)))"

definition picture_clean :: "x264_picture_t \<Rightarrow> 'x world \<Rightarrow> 'x world" where
  "picture_clean pic w = free (plane0 (img pic)) (logged Picture_clean w)"

definition encoder_open ::
  "'x x264_api \<Rightarrow> x264_param_t \<Rightarrow> 'x world \<Rightarrow> addr option \<times> 'x world" where
  "encoder_open api p w =
     (let (ok, x) = x264_encoder_open api p (engine w);
          w1 = (logged (Encoder_open p) w)\<lparr>engine := x\<rparr>
      in if ok then (let (a, w2) = malloc Engine_block w1 in (Some a, w2))
         else (None, w1))"

definition encoder_reconfig ::
  "'x x264_api \<Rightarrow> addr \<Rightarrow> x264_param_t \<Rightarrow> 'x world \<Rightarrow> int \<times> 'x world" where
  "encoder_reconfig api a p w =
     (let (r, x) = x264_encoder_reconfig api a p (engine w)
      in (r, (logged (Encoder_reconfig a p) w)\<lparr>engine := x\<rparr>))"

definition encoder_encode ::
  "'x x264_api \<Rightarrow> addr \<Rightarrow> x264_picture_t \<Rightarrow> 'x world
     \<Rightarrow> int \<times> x264_nal_t list \<times> 'x world" where
  "encoder_encode api a pic w =
     (let ((frame_size, nal), x) = x264_encoder_encode api a pic (engine w)
      in (frame_size, nal, (logged (Encoder_encode a pic) w)\<lparr>engine := x\<rparr>))"

definition encoder_close :: "'x x264_api \<Rightarrow> addr \<Rightarrow> 'x world \<Rightarrow> 'x world" where
  "encoder_close api a w =
     free a ((logged (Encoder_close a) w)\<lparr>engine := x264_encoder_close api a (engine w)\<rparr>)"

subsection \<open>enc_new\<close>

text \<open>
  The block of assignments under "Configure non-default params": \<open>seeded\<close> is
  \<open>e->param\<close> as the preset left it, \<open>p\<close> the caller's parameter.
\<close>

definition configure :: "x264_param_t \<Rightarrow> x264_param_t \<Rightarrow> x264_param_t" where
  "configure seeded p =
     seeded\<lparr>i_csp := i_csp p,
            i_width := i_width p,
            i_height := i_height p,
            i_fps_num := i_fps_num p,
            i_fps_den := 1,
            i_keyint_max := i_keyint_max p,
            rc := (rc seeded)\<lparr>i_rc_method := X264_RC_ABR,
                               i_bitrate := i_bitrate (rc p),
                               i_vbv_max_bitrate := i_vbv_max_bitrate (rc p),
                               i_vbv_buffer_size := i_vbv_buffer_size (rc p)\<rparr>,
            b_repeat_headers := 1,
            b_annexb := 1\<rparr>"

text \<open>The label \<open>fail\<close>: release the session struct, return the null pointer.\<close>

definition fail ::
  "addr \<Rightarrow> int \<Rightarrow> 'x world \<Rightarrow> (addr \<times> Encoder) option \<times> int option \<times> 'x world" where
  "fail ep code w = (None, Some code, free ep w)"

text \<open>
  \<open>enc_new api fresh p (preset, name) w\<close>:
  \<^item> \<open>fresh\<close> is what the memory returned by \<open>malloc\<close> happens to hold, read as an
    \<open>Encoder\<close> (\<open>malloc\<close> does not initialise it);
  \<^item> \<open>p\<close> is the caller's parameter, \<open>preset\<close> the pointer to the preset string and
    \<open>name\<close> its characters;
  \<^item> the result is the returned pointer with the struct it points to (\<open>None\<close> for the
    null pointer), the value stored through \<open>rc\<close> (\<open>None\<close> when nothing is stored), and
    the world after the call.
\<close>

definition enc_new ::
  "'x x264_api \<Rightarrow> Encoder \<Rightarrow> x264_param_t \<Rightarrow> addr \<times> string \<Rightarrow> 'x world
     \<Rightarrow> (addr \<times> Encoder) option \<times> int option \<times> 'x world" where
  "enc_new api fresh p preset w =
     (let (ep, w1) = malloc Encoder_block w;
          (r1, seeded, w2) = param_default_preset api (snd preset) ''zerolatency'' w1;
          e1 = fresh\<lparr>param := seeded\<rparr>
      in if r1 < 0 then fail ep ERR_DEFAULT_PRESET (free (fst preset) w2)
         else
          (let w3 = free (fst preset) w2;
               e2 = e1\<lparr>param := configure (param e1) p\<rparr>;
               (r2, checked, w4) = param_apply_profile api (param e2) ''high'' w3;
               e3 = e2\<lparr>param := checked\<rparr>
           in if r2 < 0 then fail ep ERR_APPLY_PROFILE w4
              else
               (let (r3, pic, w5) = picture_alloc api (i_csp p) (i_width p) (i_height p) w4
                in if r3 < 0 then fail ep ERR_ALLOC_PICTURE w5
                   else
                    (let e4 = e3\<lparr>pic_in := pic\<rparr>;
                         w6 = picture_clean pic w5;
                         (hp, w7) = encoder_open api (param e4) w6
                     in case hp of
                          None \<Rightarrow> fail ep ERR_OPEN_ENGINE w7
                        | Some a \<Rightarrow> (Some (ep, e4\<lparr>h := a\<rparr>), None, w7)))))"

subsection \<open>apply_target_bitrate\<close>

definition RC_MARGIN :: int where "RC_MARGIN = 10000"

text \<open>The result is the returned \<open>int\<close>, the session struct and the world after the call.\<close>

definition apply_target_bitrate ::
  "'x x264_api \<Rightarrow> Encoder \<Rightarrow> int \<Rightarrow> 'x world \<Rightarrow> int \<times> Encoder \<times> 'x world" where
  "apply_target_bitrate api e target_bitrate w =
     (let target_encoder_bitrate = target_bitrate sdiv 1000
      in if i_bitrate (rc (param e)) = target_encoder_bitrate \<or> target_encoder_bitrate \<le> 1
         then (0, e, w)
         else
          (let r1 = (rc (param e))\<lparr>i_bitrate := target_encoder_bitrate,
                                   f_rate_tolerance := Float_lit (1 / 10),
                                   i_vbv_max_bitrate := target_encoder_bitrate + RC_MARGIN sdiv 2\<rparr>;
               r2 = r1\<lparr>i_vbv_buffer_size := i_vbv_max_bitrate r1,
                       f_vbv_buffer_init := Float_lit (6 / 10)\<rparr>;
               e' = e\<lparr>param := (param e)\<lparr>rc := r2\<rparr>\<rparr>;
               (success, w') = encoder_reconfig api (h e') (param e') w
           in (success, e', w')))"

subsection \<open>enc_encode\<close>

text \<open>
  \<open>nal->p_payload\<close>: the payload of the first unit of the array. With an empty array the
  C code would read through a pointer nobody set; the model gives \<open>None\<close> there.
\<close>

definition first_payload :: "x264_nal_t list \<Rightarrow> addr option" where
  "first_payload nal = (case nal of [] \<Rightarrow> None | n # _ \<Rightarrow> Some (p_payload n))"

text \<open>
  The result is the returned \<open>Slice\<close>, the value stored through \<open>rc\<close> (\<open>None\<close> when
  nothing is stored), the session struct and the world after the call.
\<close>

definition enc_encode ::
  "'x x264_api \<Rightarrow> Encoder \<Rightarrow> addr \<Rightarrow> addr \<Rightarrow> addr \<Rightarrow> 'x world
     \<Rightarrow> Slice \<times> int option \<times> Encoder \<times> 'x world" where
  "enc_encode api e y cb cr w =
     (let e1 = e\<lparr>pic_in := (pic_in e)\<lparr>img := (img (pic_in e))\<lparr>plane0 := y,
                                                             plane1 := cb,
                                                             plane2 := cr\<rparr>\<rparr>\<rparr>;
          e2 = e1\<lparr>pic_in := (pic_in e1)\<lparr>i_type := (if force_key_frame e1 \<noteq> 0
                                                  then X264_TYPE_IDR
                                                  else X264_TYPE_AUTO)\<rparr>\<rparr>;
          (frame_size, nal, w1) = encoder_encode api (h e2) (pic_in e2) w;
          e3 = e2\<lparr>force_key_frame := 0\<rparr>;
          s = \<lparr>data = None, data_len = frame_size\<rparr>
      in if frame_size \<le> 0 then (s, Some ERR_ENCODE, e3, w1)
         else (s\<lparr>data := first_payload nal\<rparr>, None, e3, w1))"

subsection \<open>enc_close\<close>

text \<open>\<open>ep\<close> is the pointer to the session struct, \<open>e\<close> the struct.\<close>

definition enc_close ::
  "'x x264_api \<Rightarrow> addr \<times> Encoder \<Rightarrow> 'x world \<Rightarrow> int option \<times> 'x world" where
  "enc_close api s w = (None, free (fst s) (encoder_close api (h (snd s)) w))"

subsection \<open>The cell behind \<open>rc\<close>\<close>

text \<open>
  What the caller's \<open>int\<close> holds after a call, from what it held before and what the
  call stored through the pointer.
\<close>

definition stored :: "int option \<Rightarrow> int \<Rightarrow> int" where
  "stored wr old = (case wr of None \<Rightarrow> old | Some v \<Rightarrow> v)"

subsection \<open>A stand-in engine\<close>

text \<open>
  A small deterministic engine on which the theorems below are instantiated. It knows two
  presets, rejects the profile for colour space 0, fails to allocate a picture without
  area, opens only with a positive frame rate, rejects a reconfiguration above
  100000 kbit/s, and encodes to two NAL units of 100 bytes in all unless the luma plane is
  the null address. Its state counts the frames submitted.
\<close>

definition demo_seed :: x264_param_t where
  "demo_seed =
     \<lparr>i_csp = 0, i_width = 0, i_height = 0, i_fps_num = 25, i_fps_den = 1, i_keyint_max = 250,
      rc = \<lparr>i_rc_method = 1, i_bitrate = 0, f_rate_tolerance = Float_lit 1,
            i_vbv_max_bitrate = 0, i_vbv_buffer_size = 0, f_vbv_buffer_init = Float_lit (9 / 10),
            rc_rest = [23]\<rparr>,
      b_repeat_headers = 0, b_annexb = 0, param_rest = [7, 8]\<rparr>"

definition demo_picture :: "int \<Rightarrow> int \<Rightarrow> int \<Rightarrow> x264_picture_t" where
  "demo_picture csp width height =
     \<lparr>i_type = 0,
      img = \<lparr>plane0 = 0, plane1 = 0, plane2 = 0, plane3 = 0, img_rest = [csp, width, height]\<rparr>,
      pic_rest = []\<rparr>"

definition demo_api :: "nat x264_api" where
  "demo_api =
     \<lparr>x264_param_default_preset =
        (\<lambda>preset tune. (if preset = ''veryfast'' \<or> preset = ''medium'' then 0 else -1, demo_seed)),
      x264_param_apply_profile = (\<lambda>c profile. (if i_csp c = 0 then -1 else 0, c)),
      x264_picture_alloc =
        (\<lambda>csp width height.
           (if width \<le> 0 \<or> height \<le> 0 then -1 else 0, demo_picture csp width height)),
      x264_encoder_open = (\<lambda>c x. (0 < i_fps_num c, x)),
      x264_encoder_reconfig = (\<lambda>a c x. (if 100000 < i_bitrate (rc c) then -1 else 0, x)),
      x264_encoder_encode =
        (\<lambda>a pic x.
           (if plane0 (img pic) = 0 then (-1, [])
            else (100, [\<lparr>i_payload = 40, p_payload = 500\<rparr>, \<lparr>i_payload = 60, p_payload = 540\<rparr>]),
            Suc x)),
      x264_encoder_close = (\<lambda>a x. x)\<rparr>"

text \<open>
  A caller's parameter (1280 by 720 at 30 frames a second, 2000 kbit/s), a world holding
  the caller's preset string at address 0, a freshly allocated session struct whose memory
  holds nonzero bytes, and an opened session.
\<close>

definition demo_param :: x264_param_t where
  "demo_param =
     \<lparr>i_csp = 2, i_width = 1280, i_height = 720, i_fps_num = 30, i_fps_den = 0,
      i_keyint_max = 60,
      rc = \<lparr>i_rc_method = 0, i_bitrate = 2000, f_rate_tolerance = Float_lit 0,
            i_vbv_max_bitrate = 2500, i_vbv_buffer_size = 2500, f_vbv_buffer_init = Float_lit 0,
            rc_rest = []\<rparr>,
      b_repeat_headers = 0, b_annexb = 0, param_rest = []\<rparr>"

definition demo_world :: "nat world" where
  "demo_world = \<lparr>heap = [Some String_block], engine = 0, trace = []\<rparr>"

definition demo_fresh :: Encoder where
  "demo_fresh =
     \<lparr>h = 57005, pic_in = demo_picture 9 9 9, param = demo_seed, force_key_frame = 1\<rparr>"

definition demo_session :: Encoder where
  "demo_session =
     \<lparr>h = 3, pic_in = demo_picture 2 1280 720, param = configure demo_seed demo_param,
      force_key_frame = 1\<rparr>"

section \<open>Properties\<close>


lemmas demo_defs = demo_api_def demo_seed_def demo_picture_def demo_param_def demo_world_def
  demo_fresh_def demo_session_def

lemmas bridge_defs = enc_new_def fail_def malloc_def free_def logged_def
  param_default_preset_def param_apply_profile_def picture_alloc_def picture_clean_def
  encoder_open_def encoder_reconfig_def encoder_encode_def encoder_close_def configure_def
  apply_target_bitrate_def enc_encode_def enc_close_def first_payload_def Let_def

subsection \<open>Arithmetic stays in range\<close>

lemma sdiv_1000:
  "t sdiv 1000 = (if 0 \<le> t then t div 1000 else - ((- t) div 1000))" for t :: int
  by (simp add: signed_divide_int_def sgn_if)

lemma RC_MARGIN_half: "RC_MARGIN sdiv 2 = 5000"
  by (simp add: RC_MARGIN_def signed_divide_int_def)

lemma no_overflow:
  assumes "- (2 ^ 31) \<le> t" and "t < 2 ^ 31"
  shows "- (2 ^ 31) \<le> t sdiv 1000 \<and> t sdiv 1000 < 2 ^ 31
         \<and> - (2 ^ 31) \<le> t sdiv 1000 + RC_MARGIN sdiv 2
         \<and> t sdiv 1000 + RC_MARGIN sdiv 2 < (2 ^ 31 :: int)"
proof (cases "0 \<le> t")
  case True
  with assms show ?thesis
    unfolding RC_MARGIN_half sdiv_1000 by simp arith
next
  case False
  with assms show ?thesis
    unfolding RC_MARGIN_half sdiv_1000 by simp arith
qed

subsection \<open>The ledger\<close>

lemma live_logged: "live (logged c w) = live w"
  by (simp add: live_def logged_def)

lemma live_engine_update: "live (w\<lparr>engine := x\<rparr>) = live w"
  by (simp add: live_def)

lemma live_free: "live (free p w) = live w - {p}"
proof -
  have "((heap w)[p := None] ! q \<noteq> None) = (heap w ! q \<noteq> None \<and> q \<noteq> p)"
    if "q < length (heap w)" for q
    using that by (cases "q = p") simp_all
  then show ?thesis
    by (auto simp: live_def free_def)
qed

lemma live_malloc:
  "malloc b w = (a, w') \<Longrightarrow> a = length (heap w) \<and> live w' = insert a (live w)"
  by (auto simp: live_def malloc_def nth_append)

lemma fresh_not_live: "length (heap w) \<notin> live w"
  by (simp add: live_def)

lemma live_param_default_preset:
  "param_default_preset api n t w = (r, p, w') \<Longrightarrow> live w' = live w"
  by (auto simp: param_default_preset_def live_logged split: prod.splits)

lemma live_param_apply_profile:
  "param_apply_profile api c n w = (r, p, w') \<Longrightarrow> live w' = live w"
  by (auto simp: param_apply_profile_def live_logged split: prod.splits)

text \<open>A picture that is allocated and then cleaned leaves the ledger as it was.\<close>

lemma live_picture_cycle:
  assumes "picture_alloc api c wd ht w = (r, pic, w')"
  shows "(r < 0 \<longrightarrow> live w' = live w)
         \<and> (\<not> r < 0 \<longrightarrow> live (picture_clean pic w') = live w)"
proof -
  obtain r0 pic0 where x: "x264_picture_alloc api c wd ht = (r0, pic0)"
    by (cases "x264_picture_alloc api c wd ht")
  let ?w1 = "logged (Picture_alloc c wd ht) w"
  show ?thesis
  proof (cases "r0 < 0")
    case True
    with assms x have "r = r0" and "w' = ?w1"
      by (simp_all add: picture_alloc_def)
    with True show ?thesis
      by (simp add: live_logged)
  next
    case False
    obtain a w2 where m: "malloc Picture_block ?w1 = (a, w2)"
      by (cases "malloc Picture_block ?w1")
    from live_malloc [OF m] have a: "a \<notin> live ?w1" and l2: "live w2 = insert a (live ?w1)"
      using fresh_not_live [of ?w1] by auto
    from assms x False m have "r = r0" and "w' = w2" and "plane0 (img pic) = a"
      by (auto simp: picture_alloc_def)
    with False a l2 show ?thesis
      by (simp add: picture_clean_def live_free live_logged)
  qed
qed

lemma live_encoder_open_None:
  "encoder_open api p w = (None, w') \<Longrightarrow> live w' = live w"
  by (auto simp: encoder_open_def Let_def live_logged live_engine_update
        split: prod.splits if_splits)

subsection \<open>What each function computes\<close>

text \<open>A call of \<open>enc_new\<close> that returns the null pointer.\<close>

lemma enc_new_None:
  assumes "enc_new api fresh p preset w = (None, wr, w')"
  shows "live w' = live w - {fst preset}
         \<and> wr \<in> {Some ERR_DEFAULT_PRESET, Some ERR_APPLY_PROFILE,
                  Some ERR_ALLOC_PICTURE, Some ERR_OPEN_ENGINE}"
proof -
  obtain ep w1 where m: "malloc Encoder_block w = (ep, w1)"
    by (cases "malloc Encoder_block w")
  then have ep: "ep \<notin> live w" and l1: "live w1 = insert ep (live w)"
    using live_malloc [OF m] fresh_not_live [of w] by auto
  obtain r1 seeded w2
    where d: "param_default_preset api (snd preset) ''zerolatency'' w1 = (r1, seeded, w2)"
    by (cases "param_default_preset api (snd preset) ''zerolatency'' w1")
  have l2: "live w2 = live w1"
    using live_param_default_preset [OF d] .
  obtain r2 checked w4
    where a: "param_apply_profile api (configure seeded p) ''high'' (free (fst preset) w2)
                = (r2, checked, w4)"
    by (cases "param_apply_profile api (configure seeded p) ''high'' (free (fst preset) w2)")
  have l4: "live w4 = live w2 - {fst preset}"
    using live_param_apply_profile [OF a] by (simp add: live_free)
  obtain r3 pic w5
    where pa: "picture_alloc api (i_csp p) (i_width p) (i_height p) w4 = (r3, pic, w5)"
    by (cases "picture_alloc api (i_csp p) (i_width p) (i_height p) w4")
  note l5 = live_picture_cycle [OF pa]
  obtain hp w7 where o: "encoder_open api checked (picture_clean pic w5) = (hp, w7)"
    by (cases "encoder_open api checked (picture_clean pic w5)")
  have l7: "hp = None \<Longrightarrow> live w7 = live (picture_clean pic w5)"
    using live_encoder_open_None o by blast
  from assms m d a pa o ep l1 l2 l4 l5 l7 show ?thesis
    by (auto simp: enc_new_def fail_def Let_def live_free split: if_splits option.splits)
qed

text \<open>A call of \<open>enc_new\<close> that returns a session.\<close>

lemma enc_new_Some:
  assumes "enc_new api fresh p preset w = (Some (ep, e), wr, w')"
  shows "wr = None"
    and "force_key_frame e = force_key_frame fresh"
    and "param e = snd (x264_param_apply_profile api
            (configure (snd (x264_param_default_preset api (snd preset) ''zerolatency'')) p)
            ''high'')"
    and "trace w' = trace w @
           [Param_default_preset (snd preset) ''zerolatency'',
            Param_apply_profile
              (configure (snd (x264_param_default_preset api (snd preset) ''zerolatency'')) p)
              ''high'',
            Picture_alloc (i_csp p) (i_width p) (i_height p),
            Picture_clean,
            Encoder_open (param e)]"
proof -
  obtain r1 seeded
    where d: "x264_param_default_preset api (snd preset) ''zerolatency'' = (r1, seeded)"
    by (cases "x264_param_default_preset api (snd preset) ''zerolatency''")
  obtain r2 checked
    where a: "x264_param_apply_profile api (configure seeded p) ''high'' = (r2, checked)"
    by (cases "x264_param_apply_profile api (configure seeded p) ''high''")
  obtain r3 pic
    where pa: "x264_picture_alloc api (i_csp p) (i_width p) (i_height p) = (r3, pic)"
    by (cases "x264_picture_alloc api (i_csp p) (i_width p) (i_height p)")
  from assms d a pa show "wr = None"
    by (auto simp: enc_new_def fail_def param_default_preset_def param_apply_profile_def
          picture_alloc_def Let_def split: prod.splits if_splits option.splits)
  from assms d a pa show "force_key_frame e = force_key_frame fresh"
    by (auto simp: enc_new_def fail_def param_default_preset_def param_apply_profile_def
          picture_alloc_def Let_def split: prod.splits if_splits option.splits)
  from assms d a pa have c: "param e = checked"
    by (auto simp: enc_new_def fail_def param_default_preset_def param_apply_profile_def
          picture_alloc_def Let_def split: prod.splits if_splits option.splits)
  with d a show "param e = snd (x264_param_apply_profile api
            (configure (snd (x264_param_default_preset api (snd preset) ''zerolatency'')) p)
            ''high'')"
    by simp
  from assms d a pa have "trace w' = trace w @
           [Param_default_preset (snd preset) ''zerolatency'',
            Param_apply_profile (configure seeded p) ''high'',
            Picture_alloc (i_csp p) (i_width p) (i_height p),
            Picture_clean,
            Encoder_open checked]"
    by (auto simp: enc_new_def fail_def param_default_preset_def param_apply_profile_def
          picture_alloc_def picture_clean_def encoder_open_def malloc_def free_def logged_def
          Let_def split: prod.splits if_splits option.splits)
  with c d show "trace w' = trace w @
           [Param_default_preset (snd preset) ''zerolatency'',
            Param_apply_profile
              (configure (snd (x264_param_default_preset api (snd preset) ''zerolatency'')) p)
              ''high'',
            Picture_alloc (i_csp p) (i_width p) (i_height p),
            Picture_clean,
            Encoder_open (param e)]"
    by simp
qed

text \<open>A bitrate request that is not skipped.\<close>

lemma apply_target_bitrate_update:
  assumes "i_bitrate (rc (param e)) \<noteq> target_bitrate sdiv 1000"
      and "1 < target_bitrate sdiv 1000"
      and "apply_target_bitrate api e target_bitrate w = (r, e', w')"
  shows "e' = e\<lparr>param := (param e)\<lparr>rc := (rc (param e))
                 \<lparr>i_bitrate := target_bitrate sdiv 1000,
                  f_rate_tolerance := Float_lit (1 / 10),
                  i_vbv_max_bitrate := target_bitrate sdiv 1000 + 5000,
                  i_vbv_buffer_size := target_bitrate sdiv 1000 + 5000,
                  f_vbv_buffer_init := Float_lit (6 / 10)\<rparr>\<rparr>\<rparr>"
    and "r = fst (x264_encoder_reconfig api (h e) (param e') (engine w))"
    and "w' = w\<lparr>engine := snd (x264_encoder_reconfig api (h e) (param e') (engine w)),
                trace := trace w @ [Encoder_reconfig (h e) (param e')]\<rparr>"
proof -
  from assms show e': "e' = e\<lparr>param := (param e)\<lparr>rc := (rc (param e))
                 \<lparr>i_bitrate := target_bitrate sdiv 1000,
                  f_rate_tolerance := Float_lit (1 / 10),
                  i_vbv_max_bitrate := target_bitrate sdiv 1000 + 5000,
                  i_vbv_buffer_size := target_bitrate sdiv 1000 + 5000,
                  f_vbv_buffer_init := Float_lit (6 / 10)\<rparr>\<rparr>\<rparr>"
    by (auto simp: apply_target_bitrate_def Let_def RC_MARGIN_half split: prod.splits)
  from assms show "r = fst (x264_encoder_reconfig api (h e) (param e') (engine w))"
    unfolding e'
    by (auto simp: apply_target_bitrate_def encoder_reconfig_def Let_def RC_MARGIN_half
          split: prod.splits)
  from assms
  show "w' = w\<lparr>engine := snd (x264_encoder_reconfig api (h e) (param e') (engine w)),
               trace := trace w @ [Encoder_reconfig (h e) (param e')]\<rparr>"
    unfolding e'
    by (auto simp: apply_target_bitrate_def encoder_reconfig_def logged_def Let_def
          RC_MARGIN_half split: prod.splits)
qed

text \<open>A call of \<open>enc_encode\<close>, in terms of what the library answered.\<close>

lemma enc_encode_eq:
  assumes "enc_encode api e y cb cr w = (s, wr, e', w')"
      and "x264_encoder_encode api (h e) (pic_in e') (engine w) = ((frame_size, nal), x)"
  shows "e' = e\<lparr>pic_in := (pic_in e)
                  \<lparr>img := (img (pic_in e))\<lparr>plane0 := y, plane1 := cb, plane2 := cr\<rparr>,
                   i_type := (if force_key_frame e \<noteq> 0 then X264_TYPE_IDR
                              else X264_TYPE_AUTO)\<rparr>,
                force_key_frame := 0\<rparr>"
    and "w' = w\<lparr>engine := x, trace := trace w @ [Encoder_encode (h e) (pic_in e')]\<rparr>"
    and "s = \<lparr>data = (if frame_size \<le> 0 then None else first_payload nal),
              data_len = frame_size\<rparr>"
    and "wr = (if frame_size \<le> 0 then Some ERR_ENCODE else None)"
  using assms
  by (auto simp: enc_encode_def encoder_encode_def logged_def Let_def
        split: prod.splits if_splits)

section \<open>The claims\<close>

subsection \<open>Encoding a frame\<close>

text \<open>
  C1. Every call of \<open>enc_encode\<close> submits exactly one picture to the library, the
  session's own \<open>pic_in\<close>. Its frame type is IDR when the session's force-key-frame flag
  was set (nonzero) at the call and automatic otherwise, and the flag is zero after the
  call. Nothing is assumed about what the library's encode step answers, so this holds when
  it succeeds and when it fails.
\<close>

theorem enc_encode_frame_type:
  assumes "enc_encode api e y cb cr w = (s, wr, e', w')"
  shows "trace w' = trace w @ [Encoder_encode (h e) (pic_in e')]
         \<and> i_type (pic_in e') =
             (if force_key_frame e \<noteq> 0 then X264_TYPE_IDR else X264_TYPE_AUTO)
         \<and> force_key_frame e' = 0"
proof -
  obtain frame_size nal x
    where eng: "x264_encoder_encode api (h e) (pic_in e') (engine w) = ((frame_size, nal), x)"
    by (metis surj_pair)
  note eq = enc_encode_eq [OF assms eng]
  from eq(2) have "trace w' = trace w @ [Encoder_encode (h e) (pic_in e')]"
    by simp
  moreover from eq(1)
  have "i_type (pic_in e') =
          (if force_key_frame e \<noteq> 0 then X264_TYPE_IDR else X264_TYPE_AUTO)"
    by simp
  moreover from eq(1) have "force_key_frame e' = 0"
    by simp
  ultimately show ?thesis by blast
qed

text \<open>
  On the stand-in engine: a session with the flag set whose frame is encoded, and a
  session with the flag clear whose frame the engine refuses.
\<close>

theorem enc_encode_frame_type_witness:
  "force_key_frame demo_session \<noteq> 0
   \<and> (case enc_encode demo_api demo_session 10 20 30 demo_world of
        (s, wr, e', w') \<Rightarrow>
          trace w' = [Encoder_encode 3 (pic_in e')]
          \<and> i_type (pic_in e') = X264_TYPE_IDR \<and> force_key_frame e' = 0)
   \<and> (case enc_encode demo_api (demo_session\<lparr>force_key_frame := 0\<rparr>) 0 20 30 demo_world of
        (s, wr, e', w') \<Rightarrow>
          wr = Some ERR_ENCODE \<and> i_type (pic_in e') = X264_TYPE_AUTO
          \<and> force_key_frame e' = 0)"
proof -
  obtain s wr e' w'
    where r: "enc_encode demo_api demo_session 10 20 30 demo_world = (s, wr, e', w')"
    by (metis surj_pair)
  obtain s2 wr2 e2 w2
    where r2: "enc_encode demo_api (demo_session\<lparr>force_key_frame := 0\<rparr>) 0 20 30 demo_world
                 = (s2, wr2, e2, w2)"
    by (metis surj_pair)
  have f: "force_key_frame demo_session \<noteq> 0"
    by (simp add: demo_session_def)
  have t: "trace demo_world = []" "h demo_session = 3"
    by (simp_all add: demo_world_def demo_session_def)
  have "wr2 = Some ERR_ENCODE"
    using r2 by (simp add: bridge_defs demo_defs)
  with enc_encode_frame_type [OF r] enc_encode_frame_type [OF r2] f t r r2
  show ?thesis by simp
qed

subsection \<open>Changing the bitrate\<close>

text \<open>
  C2. The requested bitrate is divided by 1000 with C's integer division. When the
  quotient equals the session's configured bitrate, or is at most 1, the call returns 0 and
  leaves the session struct and the world as they were: no configuration field changes, and
  the trace is the same, so \<open>x264_encoder_reconfig\<close> is not invoked. A request of 0
  bits per second is such a call.
\<close>

theorem apply_target_bitrate_noop:
  "(i_bitrate (rc (param e)) = target_bitrate sdiv 1000 \<or> target_bitrate sdiv 1000 \<le> 1
      \<longrightarrow> apply_target_bitrate api e target_bitrate w = (0, e, w))
   \<and> apply_target_bitrate api e 0 w = (0, e, w)"
  by (simp add: apply_target_bitrate_def)

text \<open>
  On a session at 2000 kbit/s: a request of 2000999 bits per second (the same after
  division), of -1500 (quotient -1, the division truncating towards zero) and of 1999
  (quotient 1).
\<close>

theorem apply_target_bitrate_noop_witness:
  "i_bitrate (rc (param demo_session)) = 2000999 sdiv 1000
   \<and> apply_target_bitrate demo_api demo_session 2000999 demo_world
       = (0, demo_session, demo_world)
   \<and> (-1500) sdiv 1000 \<le> (1 :: int)
   \<and> apply_target_bitrate demo_api demo_session (-1500) demo_world
       = (0, demo_session, demo_world)
   \<and> trace (snd (snd (apply_target_bitrate demo_api demo_session 1999 demo_world))) = []"
proof -
  have a: "i_bitrate (rc (param demo_session)) = 2000999 sdiv 1000"
    by (simp add: demo_defs configure_def signed_divide_int_def)
  have b: "(-1500) sdiv 1000 \<le> (1 :: int)" "1999 sdiv 1000 \<le> (1 :: int)"
    by (simp_all add: signed_divide_int_def)
  have c: "trace demo_world = []"
    by (simp add: demo_world_def)
  from a b c
    apply_target_bitrate_noop [of demo_session 2000999 demo_api demo_world]
    apply_target_bitrate_noop [of demo_session "-1500" demo_api demo_world]
    apply_target_bitrate_noop [of demo_session 1999 demo_api demo_world]
  show ?thesis by simp
qed

text \<open>
  C3. A request that is not skipped stores the quotient as the bitrate, 0.1 as the rate
  tolerance and 0.6 as the initial buffer fullness, makes the buffer size equal to the
  maximum bitrate, and hands the struct so updated to \<open>x264_encoder_reconfig\<close>. The
  maximum bitrate it stores is the quotient plus \<open>RC_MARGIN / 2 = 5000\<close>, in the unit of
  the field, kbit/s: the margin added is 5000 kbit/s, not the 5 kbit/s that half of a
  10 kbit/s margin comes to. On a session at 2000 kbit/s asked for 3000000 bits per second
  the maximum is 8000 kbit/s, where the quotient plus 5 kbit/s is 3005.
\<close>

theorem apply_target_bitrate_vbv_margin:
  "apply_target_bitrate demo_api demo_session 3000000 demo_world =
     (0,
      demo_session\<lparr>param := (param demo_session)\<lparr>rc := (rc (param demo_session))
         \<lparr>i_bitrate := 3000,
          f_rate_tolerance := Float_lit (1 / 10),
          i_vbv_max_bitrate := 8000,
          i_vbv_buffer_size := 8000,
          f_vbv_buffer_init := Float_lit (6 / 10)\<rparr>\<rparr>\<rparr>,
      demo_world\<lparr>trace := [Encoder_reconfig 3 ((param demo_session)\<lparr>rc := (rc (param demo_session))
         \<lparr>i_bitrate := 3000,
          f_rate_tolerance := Float_lit (1 / 10),
          i_vbv_max_bitrate := 8000,
          i_vbv_buffer_size := 8000,
          f_vbv_buffer_init := Float_lit (6 / 10)\<rparr>\<rparr>)]\<rparr>)"
  by (simp add: bridge_defs demo_defs X264_RC_ABR_def RC_MARGIN_def signed_divide_int_def)




text \<open>
  C10. Whatever a bitrate request does (skip, succeed or fail), the session struct after
  the call is the one before it with at most five fields of \<open>rc\<close> replaced: bitrate,
  rate tolerance, VBV maximum bitrate, VBV buffer size and VBV initial fullness. The
  engine handle, the input picture with its plane pointers and geometry, the
  force-key-frame flag, every field of the configuration outside \<open>rc\<close> and the remaining
  fields of \<open>rc\<close> are the same.
\<close>

theorem apply_target_bitrate_frame:
  assumes "apply_target_bitrate api e target_bitrate w = (r, e', w')"
  shows "h e' = h e \<and> pic_in e' = pic_in e \<and> force_key_frame e' = force_key_frame e
         \<and> (\<exists>b tol vmax vbuf vinit.
               e' = e\<lparr>param := (param e)\<lparr>rc := (rc (param e))
                     \<lparr>i_bitrate := b, f_rate_tolerance := tol, i_vbv_max_bitrate := vmax,
                      i_vbv_buffer_size := vbuf, f_vbv_buffer_init := vinit\<rparr>\<rparr>\<rparr>)
         \<and> i_csp (param e') = i_csp (param e) \<and> i_width (param e') = i_width (param e)
         \<and> i_height (param e') = i_height (param e)
         \<and> i_fps_num (param e') = i_fps_num (param e)
         \<and> i_fps_den (param e') = i_fps_den (param e)
         \<and> i_keyint_max (param e') = i_keyint_max (param e)
         \<and> b_repeat_headers (param e') = b_repeat_headers (param e)
         \<and> b_annexb (param e') = b_annexb (param e)
         \<and> param_rest (param e') = param_rest (param e)
         \<and> i_rc_method (rc (param e')) = i_rc_method (rc (param e))
         \<and> rc_rest (rc (param e')) = rc_rest (rc (param e))"
proof (cases "i_bitrate (rc (param e)) = target_bitrate sdiv 1000 \<or> target_bitrate sdiv 1000 \<le> 1")
  case True
  with assms have same: "e' = e"
    by (simp add: apply_target_bitrate_def)
  have "e = e\<lparr>param := (param e)\<lparr>rc := (rc (param e))
          \<lparr>i_bitrate := i_bitrate (rc (param e)),
           f_rate_tolerance := f_rate_tolerance (rc (param e)),
           i_vbv_max_bitrate := i_vbv_max_bitrate (rc (param e)),
           i_vbv_buffer_size := i_vbv_buffer_size (rc (param e)),
           f_vbv_buffer_init := f_vbv_buffer_init (rc (param e))\<rparr>\<rparr>\<rparr>"
    by simp
  with same show ?thesis by blast
next
  case False
  then have "i_bitrate (rc (param e)) \<noteq> target_bitrate sdiv 1000"
    and "1 < target_bitrate sdiv 1000"
    by simp_all
  from apply_target_bitrate_update(1) [OF this assms] show ?thesis
    by (simp, blast)
qed

text \<open>A request the stand-in engine rejects and one it accepts.\<close>

theorem apply_target_bitrate_frame_witness:
  "(case apply_target_bitrate demo_api demo_session 200000000 demo_world of
      (r, e', w') \<Rightarrow>
        r < 0 \<and> h e' = 3 \<and> pic_in e' = demo_picture 2 1280 720 \<and> force_key_frame e' = 1
        \<and> i_width (param e') = 1280 \<and> i_height (param e') = 720 \<and> i_csp (param e') = 2
        \<and> i_rc_method (rc (param e')) = X264_RC_ABR)
   \<and> (case apply_target_bitrate demo_api demo_session 3000000 demo_world of
      (r, e', w') \<Rightarrow>
        r = 0 \<and> h e' = 3 \<and> pic_in e' = demo_picture 2 1280 720 \<and> force_key_frame e' = 1
        \<and> i_fps_num (param e') = 30 \<and> i_keyint_max (param e') = 60
        \<and> b_repeat_headers (param e') = 1 \<and> b_annexb (param e') = 1)"
proof -
  obtain r e' w'
    where run: "apply_target_bitrate demo_api demo_session 200000000 demo_world = (r, e', w')"
    by (metis surj_pair)
  obtain r2 e2 w2
    where run2: "apply_target_bitrate demo_api demo_session 3000000 demo_world = (r2, e2, w2)"
    by (metis surj_pair)
  have r: "r < 0" "r2 = 0"
    using run run2
    by (auto simp: bridge_defs demo_defs X264_RC_ABR_def RC_MARGIN_def signed_divide_int_def)
  have s: "h demo_session = 3" "pic_in demo_session = demo_picture 2 1280 720"
    "force_key_frame demo_session = 1" "i_width (param demo_session) = 1280"
    "i_height (param demo_session) = 720" "i_csp (param demo_session) = 2"
    "i_rc_method (rc (param demo_session)) = X264_RC_ABR"
    "i_fps_num (param demo_session) = 30" "i_keyint_max (param demo_session) = 60"
    "b_repeat_headers (param demo_session) = 1" "b_annexb (param demo_session) = 1"
    by (simp_all add: demo_session_def configure_def demo_param_def)
  from apply_target_bitrate_frame [OF run] apply_target_bitrate_frame [OF run2] r s run run2
  show ?thesis by simp
qed

subsection \<open>The result of encoding\<close>

text \<open>
  C5. \<open>enc_encode\<close> stores \<open>ERR_ENCODE\<close> through \<open>rc\<close> exactly when the frame size
  answered by \<open>x264_encoder_encode\<close> is zero or negative, and stores nothing otherwise.
  The length of the returned slice is that frame size in both cases. When the frame size is
  positive the slice points at the payload of the first NAL unit of the array the library
  returned.
\<close>

theorem enc_encode_result:
  assumes "enc_encode api e y cb cr w = (s, wr, e', w')"
      and "x264_encoder_encode api (h e) (pic_in e') (engine w) = ((frame_size, nal), x)"
  shows "(wr = Some ERR_ENCODE \<longleftrightarrow> frame_size \<le> 0)
         \<and> (wr = None \<longleftrightarrow> 0 < frame_size)
         \<and> data_len s = frame_size
         \<and> (0 < frame_size \<longrightarrow> data s = first_payload nal
                \<and> (\<forall>n ns. nal = n # ns \<longrightarrow> data s = Some (p_payload n)))"
  using enc_encode_eq(3,4) [OF assms]
  by (auto simp: first_payload_def)

text \<open>A frame the stand-in engine encodes to 100 bytes and one it refuses with -1.\<close>

theorem enc_encode_result_witness:
  "(case enc_encode demo_api demo_session 10 20 30 demo_world of
      (s, wr, e', w') \<Rightarrow> wr = None \<and> data_len s = 100 \<and> data s = Some 500)
   \<and> (case enc_encode demo_api demo_session 0 20 30 demo_world of
      (s, wr, e', w') \<Rightarrow> wr = Some ERR_ENCODE \<and> data_len s = -1)"
proof -
  obtain s wr e' w'
    where r: "enc_encode demo_api demo_session 10 20 30 demo_world = (s, wr, e', w')"
    by (metis surj_pair)
  obtain s2 wr2 e2 w2
    where r2: "enc_encode demo_api demo_session 0 20 30 demo_world = (s2, wr2, e2, w2)"
    by (metis surj_pair)
  have p: "plane0 (img (pic_in e')) = 10" "plane0 (img (pic_in e2)) = 0"
    using r r2 by (auto simp: bridge_defs demo_defs)
  have g: "x264_encoder_encode demo_api (h demo_session) (pic_in e') (engine demo_world)
             = ((100, [\<lparr>i_payload = 40, p_payload = 500\<rparr>, \<lparr>i_payload = 60, p_payload = 540\<rparr>]), 1)"
    using p by (simp add: demo_api_def demo_world_def)
  have g2: "x264_encoder_encode demo_api (h demo_session) (pic_in e2) (engine demo_world)
             = ((-1, []), 1)"
    using p by (simp add: demo_api_def demo_world_def)
  from enc_encode_result [OF r g] enc_encode_result [OF r2 g2] r r2
  show ?thesis by (simp add: first_payload_def)
qed

subsection \<open>Opening a session\<close>

text \<open>
  C4. \<open>enc_new\<close> never assigns \<open>force_key_frame\<close>: the session it returns carries in
  that field whatever the memory obtained from \<open>malloc\<close> held (lemma
  \<open>enc_new_Some\<close>). Here the memory held 1, the open succeeds, and the flag of the
  opened session is 1, not false.
\<close>

theorem enc_new_flag_not_initialised:
  "map_option (\<lambda>s. force_key_frame (snd s))
     (fst (enc_new demo_api demo_fresh demo_param (0, ''veryfast'') demo_world)) = Some 1"
  by (simp add: bridge_defs demo_defs)

text \<open>
  C7. In every call of \<open>enc_new\<close> that returns a session, the configuration \<open>c\<close>
  that the bridge derives and hands to \<open>x264_param_apply_profile\<close> has the pixel format,
  width, height, frame-rate numerator, maximum key-frame interval, target bitrate, VBV
  maximum bitrate and VBV buffer size of the caller's parameter, frame-rate denominator 1,
  rate-control method ABR, and both \<open>b_repeat_headers\<close> and \<open>b_annexb\<close> set to 1.
  The session keeps what the library's profile step returned for \<open>c\<close> and opens the
  engine with it.
\<close>

theorem enc_new_configuration:
  assumes "enc_new api fresh p preset w = (Some (ep, e), wr, w')"
  shows "\<exists>c. trace w' = trace w @
                 [Param_default_preset (snd preset) ''zerolatency'',
                  Param_apply_profile c ''high'',
                  Picture_alloc (i_csp p) (i_width p) (i_height p),
                  Picture_clean,
                  Encoder_open (param e)]
             \<and> param e = snd (x264_param_apply_profile api c ''high'')
             \<and> i_csp c = i_csp p \<and> i_width c = i_width p \<and> i_height c = i_height p
             \<and> i_fps_num c = i_fps_num p \<and> i_keyint_max c = i_keyint_max p
             \<and> i_bitrate (rc c) = i_bitrate (rc p)
             \<and> i_vbv_max_bitrate (rc c) = i_vbv_max_bitrate (rc p)
             \<and> i_vbv_buffer_size (rc c) = i_vbv_buffer_size (rc p)
             \<and> i_fps_den c = 1
             \<and> i_rc_method (rc c) = X264_RC_ABR
             \<and> b_repeat_headers c = 1 \<and> b_annexb c = 1"
proof -
  let ?c = "configure (snd (x264_param_default_preset api (snd preset) ''zerolatency'')) p"
  note s = enc_new_Some [OF assms]
  have "i_csp ?c = i_csp p \<and> i_width ?c = i_width p \<and> i_height ?c = i_height p
        \<and> i_fps_num ?c = i_fps_num p \<and> i_keyint_max ?c = i_keyint_max p
        \<and> i_bitrate (rc ?c) = i_bitrate (rc p)
        \<and> i_vbv_max_bitrate (rc ?c) = i_vbv_max_bitrate (rc p)
        \<and> i_vbv_buffer_size (rc ?c) = i_vbv_buffer_size (rc p)
        \<and> i_fps_den ?c = 1
        \<and> i_rc_method (rc ?c) = X264_RC_ABR
        \<and> b_repeat_headers ?c = 1 \<and> b_annexb ?c = 1"
    by (simp add: configure_def)
  with s(3) s(4) show ?thesis by blast
qed

text \<open>
  On the stand-in engine, whose profile step returns the configuration as it received it,
  the opened session holds these values.
\<close>

theorem enc_new_configuration_witness:
  "(case enc_new demo_api demo_fresh demo_param (0, ''veryfast'') demo_world of
      (res, wr, w') \<Rightarrow>
        (case res of None \<Rightarrow> False
         | Some (ep, e) \<Rightarrow>
             i_csp (param e) = 2 \<and> i_width (param e) = 1280 \<and> i_height (param e) = 720
             \<and> i_fps_num (param e) = 30 \<and> i_fps_den (param e) = 1
             \<and> i_keyint_max (param e) = 60
             \<and> i_rc_method (rc (param e)) = X264_RC_ABR
             \<and> i_bitrate (rc (param e)) = 2000
             \<and> i_vbv_max_bitrate (rc (param e)) = 2500
             \<and> i_vbv_buffer_size (rc (param e)) = 2500
             \<and> b_repeat_headers (param e) = 1 \<and> b_annexb (param e) = 1))"
proof -
  obtain ep e wr w'
    where run: "enc_new demo_api demo_fresh demo_param (0, ''veryfast'') demo_world
                  = (Some (ep, e), wr, w')"
    by (simp add: bridge_defs demo_defs)
  have keep: "snd (x264_param_apply_profile demo_api c ''high'') = c" for c
    by (simp add: demo_api_def)
  have p: "i_csp demo_param = 2" "i_width demo_param = 1280" "i_height demo_param = 720"
    "i_fps_num demo_param = 30" "i_keyint_max demo_param = 60"
    "i_bitrate (rc demo_param) = 2000" "i_vbv_max_bitrate (rc demo_param) = 2500"
    "i_vbv_buffer_size (rc demo_param) = 2500"
    by (simp_all add: demo_param_def)
  from enc_new_configuration [OF run] keep p run show ?thesis
    by auto
qed

text \<open>
  C8. Name the library's four answers during a call of \<open>enc_new\<close>. If the preset is
  refused, or the profile is, or the picture cannot be allocated, or the engine does not
  open, then the call returns the null pointer, reports the code of the first step that
  failed, and the live allocations after the call are those before it without the preset
  string: the session struct and the picture storage allocated on the way have been
  released, and so has the preset.
\<close>

theorem enc_new_releases_on_failure:
  assumes run: "enc_new api fresh p preset w = (res, wr, w')"
      and d: "x264_param_default_preset api (snd preset) ''zerolatency'' = (r1, seeded)"
      and a: "x264_param_apply_profile api (configure seeded p) ''high'' = (r2, checked)"
      and pa: "x264_picture_alloc api (i_csp p) (i_width p) (i_height p) = (r3, pic)"
      and o: "x264_encoder_open api checked (engine w) = (ok, x)"
      and failure: "r1 < 0 \<or> r2 < 0 \<or> r3 < 0 \<or> \<not> ok"
  shows "res = None
         \<and> live w' = live w - {fst preset}
         \<and> wr = Some (if r1 < 0 then ERR_DEFAULT_PRESET
                       else if r2 < 0 then ERR_APPLY_PROFILE
                       else if r3 < 0 then ERR_ALLOC_PICTURE
                       else ERR_OPEN_ENGINE)"
proof -
  from run d a pa o failure
  have res: "res = None"
    and wr: "wr = Some (if r1 < 0 then ERR_DEFAULT_PRESET
                       else if r2 < 0 then ERR_APPLY_PROFILE
                       else if r3 < 0 then ERR_ALLOC_PICTURE
                       else ERR_OPEN_ENGINE)"
    by (auto simp: bridge_defs split: if_splits)
  from run res have "live w' = live w - {fst preset}"
    using enc_new_None by blast
  with res wr show ?thesis by blast
qed

text \<open>
  An unknown preset, and a parameter the stand-in engine refuses to open after the picture
  has been allocated and cleaned. The world starts with one live block, the preset string.
\<close>

theorem enc_new_releases_on_failure_witness:
  "live demo_world = {0}
   \<and> (case enc_new demo_api demo_fresh demo_param (0, ''turbo-ultra'') demo_world of
        (res, wr, w') \<Rightarrow> res = None \<and> wr = Some ERR_DEFAULT_PRESET \<and> live w' = {})
   \<and> (case enc_new demo_api demo_fresh (demo_param\<lparr>i_fps_num := 0\<rparr>) (0, ''medium'') demo_world of
        (res, wr, w') \<Rightarrow> res = None \<and> wr = Some ERR_OPEN_ENGINE \<and> live w' = {})"
proof -
  obtain res wr w'
    where run: "enc_new demo_api demo_fresh demo_param (0, ''turbo-ultra'') demo_world
                  = (res, wr, w')"
    by (metis surj_pair)
  obtain res2 wr2 w2
    where run2: "enc_new demo_api demo_fresh (demo_param\<lparr>i_fps_num := 0\<rparr>) (0, ''medium'')
                   demo_world = (res2, wr2, w2)"
    by (metis surj_pair)
  have l: "live demo_world = {0}"
    by (simp add: live_def demo_world_def)
  have d: "x264_param_default_preset demo_api (snd (0 :: nat, ''turbo-ultra'')) ''zerolatency''
             = (-1, demo_seed)"
    by (simp add: demo_api_def)
  have a: "x264_param_apply_profile demo_api (configure demo_seed demo_param) ''high''
             = (0, configure demo_seed demo_param)"
    by (simp add: demo_api_def configure_def demo_param_def)
  have pa: "x264_picture_alloc demo_api (i_csp demo_param) (i_width demo_param)
              (i_height demo_param) = (0, demo_picture 2 1280 720)"
    by (simp add: demo_api_def demo_param_def)
  have o: "x264_encoder_open demo_api (configure demo_seed demo_param) (engine demo_world)
             = (True, 0)"
    by (simp add: demo_api_def configure_def demo_param_def demo_world_def)
  have d2: "x264_param_default_preset demo_api (snd (0 :: nat, ''medium'')) ''zerolatency''
             = (0, demo_seed)"
    by (simp add: demo_api_def)
  have a2: "x264_param_apply_profile demo_api
              (configure demo_seed (demo_param\<lparr>i_fps_num := 0\<rparr>)) ''high''
             = (0, configure demo_seed (demo_param\<lparr>i_fps_num := 0\<rparr>))"
    by (simp add: demo_api_def configure_def demo_param_def)
  have pa2: "x264_picture_alloc demo_api (i_csp (demo_param\<lparr>i_fps_num := 0\<rparr>))
               (i_width (demo_param\<lparr>i_fps_num := 0\<rparr>)) (i_height (demo_param\<lparr>i_fps_num := 0\<rparr>))
             = (0, demo_picture 2 1280 720)"
    by (simp add: demo_api_def demo_param_def)
  have o2: "x264_encoder_open demo_api (configure demo_seed (demo_param\<lparr>i_fps_num := 0\<rparr>))
              (engine demo_world) = (False, 0)"
    by (simp add: demo_api_def configure_def demo_param_def demo_world_def)
  from enc_new_releases_on_failure [OF run d a pa o]
       enc_new_releases_on_failure [OF run2 d2 a2 pa2 o2] l run run2
  show ?thesis by simp
qed

subsection \<open>The error code\<close>

text \<open>
  C9. \<open>enc_new\<close> stores a value through \<open>rc\<close> exactly when it returns the null
  pointer, \<open>enc_encode\<close> exactly when the library's frame size is zero or negative, and
  \<open>enc_close\<close> never. After a successful call the caller's cell holds what it held
  before, whatever that was.
\<close>

theorem rc_written_only_on_failure:
  assumes new: "enc_new api fresh p preset w1 = (res, wr_new, w1')"
      and enc: "enc_encode api e y cb cr w2 = (s, wr_enc, e', w2')"
      and eng: "x264_encoder_encode api (h e) (pic_in e') (engine w2) = ((frame_size, nal), x)"
      and cls: "enc_close api sess w3 = (wr_close, w3')"
  shows "(wr_new \<noteq> None \<longleftrightarrow> res = None)
         \<and> (wr_enc \<noteq> None \<longleftrightarrow> frame_size \<le> 0)
         \<and> wr_close = None
         \<and> (res \<noteq> None \<longrightarrow> stored wr_new old = old)
         \<and> (0 < frame_size \<longrightarrow> stored wr_enc old = old)
         \<and> stored wr_close old = old"
proof -
  have n: "wr_new \<noteq> None \<longleftrightarrow> res = None"
  proof (cases res)
    case None
    with new enc_new_None [of api fresh p preset w1 wr_new w1'] show ?thesis
      by auto
  next
    case (Some a)
    with new enc_new_Some(1) [of api fresh p preset w1 "fst a" "snd a" wr_new w1']
    show ?thesis by simp
  qed
  have c: "wr_enc \<noteq> None \<longleftrightarrow> frame_size \<le> 0"
    using enc_encode_eq(4) [OF enc eng] by simp
  have k: "wr_close = None"
    using cls by (simp add: enc_close_def)
  from n c k show ?thesis
    by (auto simp: stored_def)
qed

text \<open>
  A cell holding 12345 before a successful open, a failed open, a successful encode and a
  close.
\<close>

theorem rc_written_only_on_failure_witness:
  "(case enc_new demo_api demo_fresh demo_param (0, ''veryfast'') demo_world of
      (res, wr, w') \<Rightarrow> res \<noteq> None \<and> stored wr 12345 = 12345)
   \<and> (case enc_new demo_api demo_fresh demo_param (0, ''turbo-ultra'') demo_world of
      (res, wr, w') \<Rightarrow> res = None \<and> stored wr 12345 = ERR_DEFAULT_PRESET)
   \<and> (case enc_encode demo_api demo_session 10 20 30 demo_world of
      (s, wr, e', w') \<Rightarrow> 0 < data_len s \<and> stored wr 12345 = 12345)
   \<and> (case enc_close demo_api (1, demo_session) demo_world of
      (wr, w') \<Rightarrow> stored wr 12345 = 12345)"
proof -
  obtain res wr w1
    where new: "enc_new demo_api demo_fresh demo_param (0, ''veryfast'') demo_world
                  = (res, wr, w1)"
    by (metis surj_pair)
  obtain s wr_enc e' w2
    where enc: "enc_encode demo_api demo_session 10 20 30 demo_world = (s, wr_enc, e', w2)"
    by (metis surj_pair)
  obtain wr_close w3
    where cls: "enc_close demo_api (1, demo_session) demo_world = (wr_close, w3)"
    by (metis surj_pair)
  have res: "res \<noteq> None"
    using new by (auto simp: bridge_defs demo_defs)
  have p: "plane0 (img (pic_in e')) = 10"
    using enc by (auto simp: bridge_defs demo_defs)
  have eng: "x264_encoder_encode demo_api (h demo_session) (pic_in e') (engine demo_world)
             = ((100, [\<lparr>i_payload = 40, p_payload = 500\<rparr>, \<lparr>i_payload = 60, p_payload = 540\<rparr>]), 1)"
    using p by (simp add: demo_api_def demo_world_def)
  have len: "data_len s = 100"
    using enc by (auto simp: bridge_defs demo_defs)
  obtain w4
    where bad: "enc_new demo_api demo_fresh demo_param (0, ''turbo-ultra'') demo_world
                  = (None, Some ERR_DEFAULT_PRESET, w4)"
    by (simp add: bridge_defs demo_defs)
  from rc_written_only_on_failure [OF new enc eng cls, of 12345]
       rc_written_only_on_failure [OF bad enc eng cls, of 12345] res len new enc cls bad
  show ?thesis by (simp add: stored_def)
qed

end
